theory Spec2Isabelle
  imports Complex_Main
begin

section \<open>Machine arithmetic\<close>

text \<open>
  The optimizer of \<^verbatim>\<open>server/utils/optimizer.py\<close> computes with Python floats. Every
  function below takes the arithmetic as its first argument: \<open>fl\<close> rounds the exact
  result of an operation or the value of a decimal literal to the number the machine
  stores, so that \<open>a * b\<close> in the code is \<open>fl (a * b)\<close> here; \<open>py_sum\<close> is the builtin
  \<open>sum\<close> and \<open>np_sum\<close> is numpy's \<open>add.reduce\<close>, whose order of summation differs
  between versions. Comparisons, \<open>min\<close> and \<open>max\<close> are exact on stored numbers. Infinities
  and NaN are not numbers of the model.
\<close>

record arith =
  fl :: "real \<Rightarrow> real"
  py_sum :: "real list \<Rightarrow> real"
  np_sum :: "real list \<Rightarrow> real"

text \<open>Arithmetic without rounding error.\<close>

definition exact_arith :: arith where
  "exact_arith = \<lparr>fl = (\<lambda>x. x), py_sum = sum_list, np_sum = sum_list\<rparr>"

text \<open>
  Rounding to the nearest integer, a tie going to the even neighbour, and with it IEEE 754
  binary64: 53 significant bits, gradual underflow below \<open>2^-1022\<close>, and no overflow to
  infinity. Python's floats are binary64 numbers, and \<open>+\<close>, \<open>-\<close>, \<open>*\<close>, \<open>/\<close> and \<open>sqrt\<close>
  on them return the binary64 rounding of the exact result.
\<close>

definition py_round :: "real \<Rightarrow> int" where
  "py_round y =
     (let f = \<lfloor>y\<rfloor>; r = y - of_int f
      in if r < 1 / 2 then f else if 1 / 2 < r then f + 1
         else if even f then f else f + 1)"

definition binary64 :: "real \<Rightarrow> real" where
  "binary64 x =
     (if x = 0 then 0
      else
        let e = max \<lfloor>log 2 \<bar>x\<bar>\<rfloor> (- 1022) - 52
        in of_int (py_round (x / 2 powi e)) * 2 powi e)"

text \<open>Summation from left to right, starting from 0, every partial sum rounded.\<close>

definition seq_sum :: "(real \<Rightarrow> real) \<Rightarrow> real list \<Rightarrow> real" where
  "seq_sum r xs = foldl (\<lambda>s x. r (s + x)) 0 xs"

text \<open>
  Binary64 arithmetic with sums taken from left to right. For up to two summands every
  order of summation gives this sum.
\<close>

definition binary64_arith :: arith where
  "binary64_arith = \<lparr>fl = binary64, py_sum = seq_sum binary64, np_sum = seq_sum binary64\<rparr>"

text \<open>
  The builtin \<open>round(x, ndigits)\<close> on a float: the exact value of \<open>x\<close> is rounded to a
  multiple of \<open>10^-ndigits\<close>, a tie going to the even neighbour, and the decimal result is
  stored as a float.
\<close>

definition round_py :: "arith \<Rightarrow> real \<Rightarrow> nat \<Rightarrow> real" where
  "round_py A x ndigits = fl A (of_int (py_round (x * 10 ^ ndigits)) / 10 ^ ndigits)"

text \<open>
  \<open>np.std\<close> of a list of numbers: the mean, the deviations from it, their squares, the
  mean of the squares and its square root, each step stored.
\<close>

definition np_std :: "arith \<Rightarrow> real list \<Rightarrow> real" where
  "np_std A xs =
     (let n = real (length xs);
          arrmean = fl A (np_sum A xs / n);
          x = map (\<lambda>a. fl A (a - arrmean)) xs;
          x = map (\<lambda>d. fl A (d * d)) x;
          ret = fl A (np_sum A x / n)
      in fl A (sqrt ret))"

section \<open>The stock optimizer\<close>

record allocation =
  daily_stock :: "real list"
  total_stock :: real
  wastage_risk :: real
  service_level :: real

datatype stock_status = Understock | Optimal | Overstock

subsection \<open>\<open>_calculate_wastage_risk\<close>\<close>

definition calculate_wastage_risk :: "arith \<Rightarrow> real list \<Rightarrow> real list \<Rightarrow> real \<Rightarrow> real" where
  "calculate_wastage_risk A stock daily_forecast shelf_life =
     (if stock = [] \<or> daily_forecast = [] then 0
      else
        let stock_total = py_sum A stock;
            total_demand = py_sum A daily_forecast
        in if total_demand = 0 then (if 0 < stock_total then 1 else 0)
           else
             let excess_ratio =
                   max 0 (fl A (fl A (stock_total - total_demand) / total_demand));
                 shelf_life_risk = max 0 (fl A (fl A (14 - shelf_life) / 14));
                 horizon_days = real (length stock);
                 horizon_risk =
                   max 0 (fl A (fl A (horizon_days - shelf_life) / max horizon_days 1));
                 risk =
                   fl A (fl A (fl A (excess_ratio * fl A 0.5)
                                 + fl A (shelf_life_risk * fl A 0.3))
                           + fl A (horizon_risk * fl A 0.2))
             in min 1 risk)"

subsection \<open>\<open>_determine_stock_status\<close>\<close>

definition understock_threshold :: "arith \<Rightarrow> real \<Rightarrow> real" where
  "understock_threshold A shelf_life =
     (if shelf_life \<le> 3 then fl A 0.9 else if shelf_life \<le> 7 then fl A 0.85 else fl A 0.8)"

definition overstock_threshold :: "arith \<Rightarrow> real \<Rightarrow> real" where
  "overstock_threshold A shelf_life =
     (if shelf_life \<le> 3 then fl A 1.2 else if shelf_life \<le> 7 then fl A 1.3 else fl A 1.4)"

definition determine_stock_status :: "arith \<Rightarrow> real \<Rightarrow> real \<Rightarrow> real \<Rightarrow> stock_status" where
  "determine_stock_status A recommended_stock predicted_demand shelf_life =
     (if predicted_demand = 0 then (if recommended_stock = 0 then Optimal else Overstock)
      else
        let stock_ratio = fl A (recommended_stock / predicted_demand)
        in if stock_ratio < understock_threshold A shelf_life then Understock
           else if overstock_threshold A shelf_life < stock_ratio then Overstock
           else Optimal)"

subsection \<open>\<open>_optimize_single_product\<close>\<close>

text \<open>
  The statistics computed before the loop (lines 107 to 109): the average demand and the
  capped safety stock factor. A series of one observation takes 20 percent of the average
  as its deviation.
\<close>

definition avg_demand :: "arith \<Rightarrow> real list \<Rightarrow> real" where
  "avg_demand A daily_forecast =
     fl A (py_sum A daily_forecast / real (length daily_forecast))"

definition demand_std :: "arith \<Rightarrow> real list \<Rightarrow> real" where
  "demand_std A daily_forecast =
     (if 1 < length daily_forecast then np_std A daily_forecast
      else fl A (avg_demand A daily_forecast * fl A 0.2))"

definition safety_stock_factor :: "arith \<Rightarrow> real list \<Rightarrow> real" where
  "safety_stock_factor A daily_forecast =
     min (fl A 0.5)
       (fl A (demand_std A daily_forecast / max (avg_demand A daily_forecast) 1))"

definition shelf_life_factor :: "arith \<Rightarrow> real \<Rightarrow> real" where
  "shelf_life_factor A shelf_life = max (fl A 0.1) (min 1 (fl A (shelf_life / 30)))"

text \<open>
  One iteration of the loop over \<open>range(n_days)\<close> (lines 116 to 134): the value appended
  to \<open>daily_stock\<close> for \<open>day\<close>. The safety stock is taken from the base stock before the
  peak or trough adjustment is applied to it.
\<close>

definition day_stock :: "arith \<Rightarrow> real list \<Rightarrow> real \<Rightarrow> real \<Rightarrow> real \<Rightarrow> nat \<Rightarrow> real" where
  "day_stock A daily_forecast avg ssf shelf_life day =
     (let day_demand = (if day < length daily_forecast then daily_forecast ! day else avg);
          base_stock = day_demand;
          safety_stock = fl A (fl A (base_stock * ssf) * shelf_life_factor A shelf_life);
          base_stock =
            (if day < length daily_forecast then
               (if fl A (avg * fl A 1.2) < day_demand then fl A (base_stock * fl A 1.1)
                else if day_demand < fl A (avg * fl A 0.8) then fl A (base_stock * fl A 0.9)
                else base_stock)
             else base_stock);
          recommended_stock = fl A (base_stock + safety_stock)
      in max 0 (round_py A recommended_stock 2))"

fun stock_loop ::
  "arith \<Rightarrow> real list \<Rightarrow> real \<Rightarrow> real \<Rightarrow> real \<Rightarrow> nat list \<Rightarrow> real list \<Rightarrow> real list" where
  "stock_loop A daily_forecast avg ssf shelf_life [] stock = stock"
| "stock_loop A daily_forecast avg ssf shelf_life (day # days) stock =
     stock_loop A daily_forecast avg ssf shelf_life days
       (stock @ [day_stock A daily_forecast avg ssf shelf_life day])"

definition n_days_of :: "int \<Rightarrow> real list \<Rightarrow> int" where
  "n_days_of horizon daily_forecast = min horizon (int (length daily_forecast))"

definition service_level_of :: "arith \<Rightarrow> real \<Rightarrow> real \<Rightarrow> real" where
  "service_level_of A stock_total total_demand =
     min 100 (fl A (fl A (stock_total / max total_demand 1) * 100))"

text \<open>
  The state of the function at line 142, after the loop and the first computation of
  risk and service level, for a series that passed the guard of line 98.
\<close>

definition pre_correction :: "arith \<Rightarrow> real list \<Rightarrow> real \<Rightarrow> int \<Rightarrow> allocation" where
  "pre_correction A daily_forecast shelf_life horizon =
     (let n_days = n_days_of horizon daily_forecast;
          avg = avg_demand A daily_forecast;
          ssf = safety_stock_factor A daily_forecast;
          total_demand = py_sum A daily_forecast;
          stock = stock_loop A daily_forecast avg ssf shelf_life [0..<nat n_days] [];
          stock_total = py_sum A stock
      in \<lparr>daily_stock = stock,
          total_stock = stock_total,
          wastage_risk = calculate_wastage_risk A stock daily_forecast shelf_life,
          service_level = service_level_of A stock_total total_demand\<rparr>)"

definition adjustment_factor :: "arith \<Rightarrow> real \<Rightarrow> real" where
  "adjustment_factor A level = fl A (80 / max level 1)"

text \<open>The correction of lines 145 to 150.\<close>

definition correction_pass :: "arith \<Rightarrow> real list \<Rightarrow> real \<Rightarrow> allocation \<Rightarrow> allocation" where
  "correction_pass A daily_forecast shelf_life a =
     (if service_level a < 80 then
        let stock = map (\<lambda>s. fl A (s * adjustment_factor A (service_level a))) (daily_stock a);
            stock_total = py_sum A stock
        in \<lparr>daily_stock = stock,
            total_stock = stock_total,
            wastage_risk = calculate_wastage_risk A stock daily_forecast shelf_life,
            service_level = service_level_of A stock_total (py_sum A daily_forecast)\<rparr>
      else a)"

definition round_result :: "arith \<Rightarrow> allocation \<Rightarrow> allocation" where
  "round_result A a =
     \<lparr>daily_stock = map (\<lambda>s. round_py A s 2) (daily_stock a),
      total_stock = round_py A (total_stock a) 2,
      wastage_risk = round_py A (wastage_risk a) 3,
      service_level = round_py A (service_level a) 2\<rparr>"

text \<open>
  The whole function. Its fourth parameter \<open>product_id\<close> is not read by the body and is
  left out.
\<close>

definition optimize_single_product :: "arith \<Rightarrow> real list \<Rightarrow> real \<Rightarrow> int \<Rightarrow> allocation" where
  "optimize_single_product A daily_forecast shelf_life horizon =
     (let n_days = n_days_of horizon daily_forecast
      in if n_days = 0 \<or> daily_forecast = [] then
           \<lparr>daily_stock = replicate (nat (max 1 n_days)) 0,
            total_stock = 0,
            wastage_risk = 0,
            service_level = 0\<rparr>
         else round_result A
                (correction_pass A daily_forecast shelf_life
                   (pre_correction A daily_forecast shelf_life horizon)))"

text \<open>
  The spec's step 5 as the specification words it, for comparison with \<open>day_stock\<close>:
  the base stock is adjusted first and the safety stock is taken from the adjusted base
  stock. The statistics of steps 2 to 4 are those of the code.
\<close>

definition spec_daily_stock :: "arith \<Rightarrow> real list \<Rightarrow> real \<Rightarrow> nat \<Rightarrow> real" where
  "spec_daily_stock A demand shelf_life_days d =
     (let day_demand = demand ! d;
          avg = avg_demand A demand;
          base_stock =
            (if fl A (avg * fl A 1.2) < day_demand then fl A (day_demand * fl A 1.1)
             else if day_demand < fl A (avg * fl A 0.8) then fl A (day_demand * fl A 0.9)
             else day_demand);
          safety_stock =
            fl A (fl A (base_stock * safety_stock_factor A demand)
                    * shelf_life_factor A shelf_life_days)
      in max 0 (round_py A (fl A (base_stock + safety_stock)) 2))"

text \<open>Amounts that are whole hundredths, which \<open>round(x, 2)\<close> leaves as they are.\<close>

definition cents :: "real \<Rightarrow> bool" where
  "cents x = (of_int \<lfloor>x * 100\<rfloor> = x * 100)"

section \<open>The plan operation\<close>

























section \<open>Exact arithmetic\<close>

lemma fl_exact: "fl exact_arith x = x"
  by (simp add: exact_arith_def)

lemma py_sum_exact: "py_sum exact_arith xs = sum_list xs"
  by (simp add: exact_arith_def)

lemma np_sum_exact: "np_sum exact_arith xs = sum_list xs"
  by (simp add: exact_arith_def)

lemmas exact_ops = fl_exact py_sum_exact np_sum_exact

lemma round_py_exact:
  "round_py exact_arith x ndigits = of_int (py_round (x * 10 ^ ndigits)) / 10 ^ ndigits"
  unfolding round_py_def exact_ops by simp

lemma np_std_exact:
  "np_std exact_arith xs =
     sqrt (sum_list (map (\<lambda>a. (a - sum_list xs / real (length xs))
                              * (a - sum_list xs / real (length xs))) xs)
           / real (length xs))"
  unfolding np_std_def exact_ops Let_def by (simp add: o_def)

lemma calculate_wastage_risk_exact:
  "calculate_wastage_risk exact_arith stock daily_forecast shelf_life =
     (if stock = [] \<or> daily_forecast = [] then 0
      else
        let stock_total = sum_list stock;
            total_demand = sum_list daily_forecast
        in if total_demand = 0 then (if 0 < stock_total then 1 else 0)
           else
             let excess_ratio = max 0 ((stock_total - total_demand) / total_demand);
                 shelf_life_risk = max 0 ((14 - shelf_life) / 14);
                 horizon_days = real (length stock);
                 horizon_risk = max 0 ((horizon_days - shelf_life) / max horizon_days 1);
                 risk = excess_ratio * 0.5 + shelf_life_risk * 0.3 + horizon_risk * 0.2
             in min 1 risk)"
  unfolding calculate_wastage_risk_def exact_ops by simp

lemma avg_demand_exact:
  "avg_demand exact_arith daily_forecast = sum_list daily_forecast / real (length daily_forecast)"
  unfolding avg_demand_def exact_ops by simp

lemma demand_std_exact:
  "demand_std exact_arith daily_forecast =
     (if 1 < length daily_forecast then np_std exact_arith daily_forecast
      else avg_demand exact_arith daily_forecast * 0.2)"
  unfolding demand_std_def exact_ops by simp

lemma safety_stock_factor_exact:
  "safety_stock_factor exact_arith daily_forecast =
     min 0.5 (demand_std exact_arith daily_forecast / max (avg_demand exact_arith daily_forecast) 1)"
  unfolding safety_stock_factor_def exact_ops by simp

lemma shelf_life_factor_exact:
  "shelf_life_factor exact_arith shelf_life = max 0.1 (min 1 (shelf_life / 30))"
  unfolding shelf_life_factor_def exact_ops by simp

lemma day_stock_exact:
  "day_stock exact_arith daily_forecast avg ssf shelf_life day =
     (let day_demand = (if day < length daily_forecast then daily_forecast ! day else avg);
          base_stock = day_demand;
          safety_stock = base_stock * ssf * shelf_life_factor exact_arith shelf_life;
          base_stock =
            (if day < length daily_forecast then
               (if avg * 1.2 < day_demand then base_stock * 1.1
                else if day_demand < avg * 0.8 then base_stock * 0.9
                else base_stock)
             else base_stock);
          recommended_stock = base_stock + safety_stock
      in max 0 (round_py exact_arith recommended_stock 2))"
  unfolding day_stock_def exact_ops by simp

lemma service_level_of_exact:
  "service_level_of exact_arith stock_total total_demand =
     min 100 (stock_total / max total_demand 1 * 100)"
  unfolding service_level_of_def exact_ops by simp

lemma pre_correction_exact:
  "pre_correction exact_arith daily_forecast shelf_life horizon =
     (let n_days = n_days_of horizon daily_forecast;
          avg = avg_demand exact_arith daily_forecast;
          ssf = safety_stock_factor exact_arith daily_forecast;
          total_demand = sum_list daily_forecast;
          stock = stock_loop exact_arith daily_forecast avg ssf shelf_life [0..<nat n_days] [];
          stock_total = sum_list stock
      in \<lparr>daily_stock = stock,
          total_stock = stock_total,
          wastage_risk = calculate_wastage_risk exact_arith stock daily_forecast shelf_life,
          service_level = service_level_of exact_arith stock_total total_demand\<rparr>)"
  unfolding pre_correction_def exact_ops by simp

lemma adjustment_factor_exact: "adjustment_factor exact_arith level = 80 / max level 1"
  unfolding adjustment_factor_def exact_ops by simp

lemma correction_pass_exact:
  "correction_pass exact_arith daily_forecast shelf_life a =
     (if service_level a < 80 then
        let stock = map (\<lambda>s. s * adjustment_factor exact_arith (service_level a)) (daily_stock a);
            stock_total = sum_list stock
        in \<lparr>daily_stock = stock,
            total_stock = stock_total,
            wastage_risk = calculate_wastage_risk exact_arith stock daily_forecast shelf_life,
            service_level = service_level_of exact_arith stock_total (sum_list daily_forecast)\<rparr>
      else a)"
  unfolding correction_pass_def exact_ops by simp

lemma spec_daily_stock_exact:
  "spec_daily_stock exact_arith demand shelf_life_days d =
     (let day_demand = demand ! d;
          avg = avg_demand exact_arith demand;
          base_stock =
            (if avg * 1.2 < day_demand then day_demand * 1.1
             else if day_demand < avg * 0.8 then day_demand * 0.9
             else day_demand);
          safety_stock =
            base_stock * safety_stock_factor exact_arith demand
              * shelf_life_factor exact_arith shelf_life_days
      in max 0 (round_py exact_arith (base_stock + safety_stock) 2))"
  unfolding spec_daily_stock_def exact_ops by simp

lemma round_result_exact:
  "round_result exact_arith a =
     \<lparr>daily_stock = map (\<lambda>s. round_py exact_arith s 2) (daily_stock a),
      total_stock = round_py exact_arith (total_stock a) 2,
      wastage_risk = round_py exact_arith (wastage_risk a) 3,
      service_level = round_py exact_arith (service_level a) 2\<rparr>"
  by (simp add: round_result_def)

section \<open>Rounding\<close>

lemma py_round_of_int: "py_round (of_int n) = n"
  by (simp add: py_round_def)

lemma py_round_near: "\<bar>of_int (py_round y) - y\<bar> \<le> 1 / 2"
  unfolding py_round_def Let_def by (auto simp: abs_le_iff)

lemma py_round_unique:
  assumes "of_int n - 1 / 2 < y" and "y < of_int n + 1 / 2"
  shows "py_round y = n"
proof -
  have "\<bar>of_int (py_round y) - y\<bar> \<le> 1 / 2" by (rule py_round_near)
  with assms have "\<bar>(of_int (py_round y) :: real) - of_int n\<bar> < 1" by linarith
  then have "\<bar>py_round y - n\<bar> < 1"
    by (metis of_int_diff of_int_abs of_int_less_1_iff)
  then show ?thesis by simp
qed

lemma py_round_tie_up: "even m \<Longrightarrow> py_round (of_int m - 1 / 2) = m"
proof -
  assume e: "even m"
  have f: "\<lfloor>(of_int m :: real) - 1 / 2\<rfloor> = m - 1" by linarith
  from e have "odd (m - 1)" by simp
  then show ?thesis using f by (simp add: py_round_def Let_def)
qed

lemma py_round_tie_down: "even m \<Longrightarrow> py_round (of_int m + 1 / 2) = m"
proof -
  assume e: "even m"
  have f: "\<lfloor>(of_int m :: real) + 1 / 2\<rfloor> = m" by linarith
  then show ?thesis using e by (simp add: py_round_def Let_def)
qed

lemma py_round_mono: "x \<le> y \<Longrightarrow> py_round x \<le> py_round y"
proof (rule ccontr)
  assume xy: "x \<le> y" and "\<not> py_round x \<le> py_round y"
  then have lt: "py_round y + 1 \<le> py_round x" by simp
  have a: "\<bar>of_int (py_round x) - x\<bar> \<le> 1 / 2" and b: "\<bar>of_int (py_round y) - y\<bar> \<le> 1 / 2"
    by (rule py_round_near)+
  from lt have c: "(of_int (py_round y) :: real) + 1 \<le> of_int (py_round x)"
    by (metis of_int_1 of_int_add of_int_le_iff)
  from a b c xy have "x = y" by linarith
  with lt show False by simp
qed

lemma round_py_mono: "x \<le> y \<Longrightarrow> round_py exact_arith x n \<le> round_py exact_arith y n"
  unfolding round_py_exact
  by (intro divide_right_mono) (auto intro!: py_round_mono mult_right_mono)

lemma round_py_near: "\<bar>round_py exact_arith x 2 - x\<bar> \<le> 1 / 200"
proof -
  have "\<bar>of_int (py_round (x * 100)) - x * 100\<bar> \<le> 1 / 2" by (rule py_round_near)
  then show ?thesis unfolding round_py_exact by (simp add: abs_le_iff field_simps)
qed

lemma round_py_of_int: "round_py exact_arith (of_int k / 10 ^ n) n = of_int k / 10 ^ n"
  unfolding round_py_exact by (simp add: py_round_of_int)

lemma round_py_idem: "round_py exact_arith (round_py exact_arith x n) n = round_py exact_arith x n"
  unfolding round_py_exact[of x] by (rule round_py_of_int)

lemma round_py_zero: "round_py exact_arith 0 n = 0"
  using round_py_of_int[of 0 n] by simp

lemma round_py_one: "round_py exact_arith 1 n = 1"
  using round_py_of_int[of "10 ^ n" n] by simp

lemma round_py_hundred: "round_py exact_arith 100 n = 100"
  using round_py_of_int[of "100 * 10 ^ n" n] by simp

lemma round_py_unique:
  assumes "of_int k - 1 / 2 < x * 10 ^ n" and "x * 10 ^ n < of_int k + 1 / 2"
  shows "round_py exact_arith x n = of_int k / 10 ^ n"
  unfolding round_py_exact using py_round_unique[OF assms] by simp

section \<open>Facts about the allocator's stages\<close>

lemma stock_loop_eq:
  "stock_loop A df avg ssf sl days acc = acc @ map (day_stock A df avg ssf sl) days"
  by (induction days arbitrary: acc) simp_all

lemma day_stock_nonneg: "0 \<le> day_stock exact_arith df avg ssf sl day"
  by (simp add: day_stock_exact Let_def)

lemma day_stock_cents: "\<exists>k. day_stock exact_arith df avg ssf sl day = of_int k / 10 ^ 2"
proof -
  have "\<exists>k. max 0 (round_py exact_arith x 2) = of_int k / 10 ^ 2" for x
  proof (cases "0 \<le> round_py exact_arith x 2")
    case True
    then have "max 0 (round_py exact_arith x 2) = of_int (py_round (x * 10 ^ 2)) / 10 ^ 2"
      by (simp add: round_py_exact max_def)
    then show ?thesis by blast
  next
    case False
    then have "max 0 (round_py exact_arith x 2) = of_int 0 / 10 ^ 2" by (simp add: max_def)
    then show ?thesis by blast
  qed
  then show ?thesis unfolding day_stock_exact Let_def by blast
qed

lemma pre_correction_stock:
  "daily_stock (pre_correction A df sl h) =
     map (day_stock A df (avg_demand A df) (safety_stock_factor A df) sl)
       [0..<nat (n_days_of h df)]"
  by (simp add: pre_correction_def Let_def stock_loop_eq)

lemma pre_correction_total:
  "total_stock (pre_correction exact_arith df sl h) = sum_list (daily_stock (pre_correction exact_arith df sl h))"
  by (simp add: pre_correction_exact Let_def)

lemma pre_correction_level:
  "service_level (pre_correction exact_arith df sl h) =
     service_level_of exact_arith (sum_list (daily_stock (pre_correction exact_arith df sl h))) (sum_list df)"
  by (simp add: pre_correction_exact Let_def)

lemma pre_correction_risk:
  "wastage_risk (pre_correction exact_arith df sl h) =
     calculate_wastage_risk exact_arith (daily_stock (pre_correction exact_arith df sl h)) df sl"
  by (simp add: pre_correction_exact Let_def)

lemma pre_correction_nonneg: "x \<in> set (daily_stock (pre_correction exact_arith df sl h)) \<Longrightarrow> 0 \<le> x"
  by (auto simp: pre_correction_stock day_stock_nonneg)

lemma sum_list_nonneg_real: "(\<And>x. x \<in> set xs \<Longrightarrow> (0::real) \<le> x) \<Longrightarrow> 0 \<le> sum_list xs"
  by (induction xs) auto

lemma risk_bounds: "0 \<le> calculate_wastage_risk exact_arith st df sl \<and> calculate_wastage_risk exact_arith st df sl \<le> 1"
  by (simp add: calculate_wastage_risk_exact Let_def)

lemma level_bounds: "0 \<le> t \<Longrightarrow> 0 \<le> service_level_of exact_arith t d \<and> service_level_of exact_arith t d \<le> 100"
  by (simp add: service_level_of_exact)

lemma adjustment_factor_ge_1: "l < 80 \<Longrightarrow> 1 \<le> adjustment_factor exact_arith l"
  by (simp add: adjustment_factor_exact max_def)

lemma adjustment_factor_pos: "0 < adjustment_factor exact_arith l"
  by (simp add: adjustment_factor_exact max_def)

lemma guard_result:
  "n_days_of h df = 0 \<or> df = [] \<Longrightarrow>
     optimize_single_product A df sl h =
       \<lparr>daily_stock = replicate (nat (max 1 (n_days_of h df))) 0, total_stock = 0,
        wastage_risk = 0, service_level = 0\<rparr>"
  by (simp add: optimize_single_product_def Let_def)

lemma main_result:
  "n_days_of h df \<noteq> 0 \<Longrightarrow> df \<noteq> [] \<Longrightarrow>
     optimize_single_product A df sl h =
       round_result A (correction_pass A df sl (pre_correction A df sl h))"
  by (simp add: optimize_single_product_def Let_def)

lemma correction_stock:
  "daily_stock (correction_pass exact_arith df sl a) =
     (if service_level a < 80 then map (\<lambda>s. s * adjustment_factor exact_arith (service_level a)) (daily_stock a)
      else daily_stock a)"
  by (simp add: correction_pass_exact Let_def)

lemma correction_total:
  "total_stock a = sum_list (daily_stock a) \<Longrightarrow>
   total_stock (correction_pass exact_arith df sl a) = sum_list (daily_stock (correction_pass exact_arith df sl a))"
  by (simp add: correction_pass_exact Let_def)

lemma correction_nonneg:
  assumes "\<And>x. x \<in> set (daily_stock a) \<Longrightarrow> 0 \<le> x"
    and "x \<in> set (daily_stock (correction_pass exact_arith df sl a))"
  shows "0 \<le> x"
proof (cases "service_level a < 80")
  case True
  with assms(2) obtain s where "s \<in> set (daily_stock a)" and "x = s * adjustment_factor exact_arith (service_level a)"
    by (auto simp: correction_stock)
  with assms(1) adjustment_factor_pos[of "service_level a"] show ?thesis by simp
next
  case False
  with assms show ?thesis by (simp add: correction_stock)
qed

lemma correction_risk_bounds:
  assumes "0 \<le> wastage_risk a \<and> wastage_risk a \<le> 1"
  shows "0 \<le> wastage_risk (correction_pass exact_arith df sl a) \<and> wastage_risk (correction_pass exact_arith df sl a) \<le> 1"
  using assms risk_bounds by (simp add: correction_pass_exact Let_def)

lemma correction_level_bounds:
  assumes "0 \<le> service_level a \<and> service_level a \<le> 100"
    and "\<And>x. x \<in> set (daily_stock a) \<Longrightarrow> 0 \<le> x"
  shows "0 \<le> service_level (correction_pass exact_arith df sl a) \<and> service_level (correction_pass exact_arith df sl a) \<le> 100"
proof (cases "service_level a < 80")
  case True
  have "0 \<le> sum_list (map (\<lambda>s. s * adjustment_factor exact_arith (service_level a)) (daily_stock a))"
  proof (rule sum_list_nonneg_real)
    fix x assume "x \<in> set (map (\<lambda>s. s * adjustment_factor exact_arith (service_level a)) (daily_stock a))"
    then obtain s where "s \<in> set (daily_stock a)" and "x = s * adjustment_factor exact_arith (service_level a)"
      by auto
    with assms(2) adjustment_factor_pos[of "service_level a"] show "0 \<le> x" by simp
  qed
  with True level_bounds show ?thesis by (simp add: correction_pass_exact Let_def)
next
  case False
  with assms(1) show ?thesis by (simp add: correction_pass_exact)
qed

lemma round_unit_bounds: "0 \<le> x \<and> x \<le> 1 \<Longrightarrow> 0 \<le> round_py exact_arith x n \<and> round_py exact_arith x n \<le> 1"
  using round_py_mono[of 0 x n] round_py_mono[of x 1 n] by (simp add: round_py_zero round_py_one)

lemma round_percent_bounds: "0 \<le> x \<and> x \<le> 100 \<Longrightarrow> 0 \<le> round_py exact_arith x n \<and> round_py exact_arith x n \<le> 100"
  using round_py_mono[of 0 x n] round_py_mono[of x 100 n] by (simp add: round_py_zero round_py_hundred)

lemma pre_correction_bounds:
  "0 \<le> wastage_risk (pre_correction exact_arith df sl h) \<and> wastage_risk (pre_correction exact_arith df sl h) \<le> 1 \<and>
   0 \<le> service_level (pre_correction exact_arith df sl h) \<and> service_level (pre_correction exact_arith df sl h) \<le> 100"
proof -
  have "0 \<le> sum_list (daily_stock (pre_correction exact_arith df sl h))"
    by (rule sum_list_nonneg_real) (rule pre_correction_nonneg)
  then show ?thesis
    using level_bounds risk_bounds by (simp add: pre_correction_level pre_correction_risk)
qed

lemma corrected_bounds:
  "0 \<le> wastage_risk (correction_pass exact_arith df sl (pre_correction exact_arith df sl h)) \<and>
   wastage_risk (correction_pass exact_arith df sl (pre_correction exact_arith df sl h)) \<le> 1 \<and>
   0 \<le> service_level (correction_pass exact_arith df sl (pre_correction exact_arith df sl h)) \<and>
   service_level (correction_pass exact_arith df sl (pre_correction exact_arith df sl h)) \<le> 100"
  using correction_risk_bounds[of "pre_correction exact_arith df sl h" df sl]
    correction_level_bounds[of "pre_correction exact_arith df sl h" df sl]
    pre_correction_bounds[of df sl h] pre_correction_nonneg[of _ df sl h]
  by blast

subsection \<open>Hundredths and the rounding of sums\<close>

lemma cents_iff: "cents x \<longleftrightarrow> (\<exists>k::int. x = of_int k / 10 ^ 2)"
proof
  assume "cents x"
  then have "of_int \<lfloor>x * 100\<rfloor> = x * 100" unfolding cents_def .
  then have "x = of_int \<lfloor>x * 100\<rfloor> / 100" by linarith
  then have "x = of_int \<lfloor>x * 100\<rfloor> / 10 ^ 2" by (simp only: power2_eq_square; simp)
  then show "\<exists>k::int. x = of_int k / 10 ^ 2" by (rule exI)
next
  assume "\<exists>k::int. x = of_int k / 10 ^ 2"
  then obtain k :: int where "x = of_int k / 10 ^ 2" by blast
  then have "x * 100 = of_int k" by simp
  then show "cents x" unfolding cents_def by (simp only: floor_of_int)
qed

lemma cents_round: "cents x \<Longrightarrow> round_py exact_arith x 2 = x"
proof -
  assume "cents x"
  then obtain k :: int where x: "x = of_int k / 10 ^ 2" unfolding cents_iff by blast
  show ?thesis unfolding x by (rule round_py_of_int)
qed

lemma cents_add: "cents x \<Longrightarrow> cents y \<Longrightarrow> cents (x + y)"
proof -
  assume "cents x" and "cents y"
  then obtain j k :: int where "x = of_int j / 10 ^ 2" and "y = of_int k / 10 ^ 2"
    unfolding cents_iff by blast
  then have "x + y = of_int (j + k) / 10 ^ 2" by (simp add: add_divide_distrib)
  then show ?thesis unfolding cents_iff by blast
qed

lemma cents_zero: "cents 0"
  unfolding cents_iff by (rule exI[of _ 0]) simp

lemma cents_sum_list: "(\<And>x. x \<in> set xs \<Longrightarrow> cents x) \<Longrightarrow> cents (sum_list xs)"
  by (induction xs) (simp_all add: cents_zero cents_add)

lemma cents_pre_correction: "x \<in> set (daily_stock (pre_correction exact_arith df sl h)) \<Longrightarrow> cents x"
  unfolding cents_iff using day_stock_cents by (auto simp: pre_correction_stock)

lemma map_round_cents: "(\<And>x. x \<in> set xs \<Longrightarrow> cents x) \<Longrightarrow> map (\<lambda>s. round_py exact_arith s 2) xs = xs"
  by (induction xs) (simp_all add: cents_round)

lemma sum_round_near:
  "\<bar>sum_list (map (\<lambda>s. round_py exact_arith s 2) xs) - sum_list xs\<bar> \<le> real (length xs) / 200"
proof (induction xs)
  case Nil
  then show ?case by simp
next
  case (Cons x xs)
  have "\<bar>round_py exact_arith x 2 - x\<bar> \<le> 1 / 200" by (rule round_py_near)
  moreover have "real (length (x # xs)) / 200 = real (length xs) / 200 + 1 / 200"
    by (simp add: add_divide_distrib)
  moreover note Cons.IH
  ultimately show ?case by (simp only: list.map sum_list.Cons; linarith)
qed

lemma round_total_near:
  "\<bar>round_py exact_arith (sum_list xs) 2 - sum_list (map (\<lambda>s. round_py exact_arith s 2) xs)\<bar> \<le> real (length xs + 1) / 200"
proof -
  have "\<bar>round_py exact_arith (sum_list xs) 2 - sum_list xs\<bar> \<le> 1 / 200" by (rule round_py_near)
  moreover have "real (length xs + 1) / 200 = real (length xs) / 200 + 1 / 200"
    by (simp add: add_divide_distrib)
  moreover note sum_round_near[of xs]
  ultimately show ?thesis by linarith
qed

lemma corrected_total:
  "total_stock (correction_pass exact_arith df sl (pre_correction exact_arith df sl h)) =
     sum_list (daily_stock (correction_pass exact_arith df sl (pre_correction exact_arith df sl h)))"
  by (rule correction_total) (rule pre_correction_total)

subsection \<open>The result with and without the correction\<close>

lemma corrected_result:
  assumes "n_days_of h df \<noteq> 0" and "df \<noteq> []"
    and "service_level (pre_correction exact_arith df sl h) < 80"
  shows "daily_stock (optimize_single_product exact_arith df sl h) =
      map (\<lambda>s. round_py exact_arith (s * adjustment_factor exact_arith (service_level (pre_correction exact_arith df sl h))) 2)
        (daily_stock (pre_correction exact_arith df sl h))"
    and "total_stock (optimize_single_product exact_arith df sl h) =
      round_py exact_arith (sum_list (daily_stock (pre_correction exact_arith df sl h))
        * adjustment_factor exact_arith (service_level (pre_correction exact_arith df sl h))) 2"
    and "wastage_risk (optimize_single_product exact_arith df sl h) =
      round_py exact_arith (calculate_wastage_risk exact_arith
        (map (\<lambda>s. s * adjustment_factor exact_arith (service_level (pre_correction exact_arith df sl h)))
          (daily_stock (pre_correction exact_arith df sl h))) df sl) 3"
  using assms
  by (simp_all add: main_result round_result_exact correction_pass_exact Let_def o_def sum_list_mult_const)

lemma uncorrected_result:
  assumes "n_days_of h df \<noteq> 0" and "df \<noteq> []"
    and "80 \<le> service_level (pre_correction exact_arith df sl h)"
  shows "daily_stock (optimize_single_product exact_arith df sl h) = daily_stock (pre_correction exact_arith df sl h)"
    and "wastage_risk (optimize_single_product exact_arith df sl h) =
      round_py exact_arith (calculate_wastage_risk exact_arith (daily_stock (pre_correction exact_arith df sl h)) df sl) 3"
proof -
  have c: "correction_pass exact_arith df sl (pre_correction exact_arith df sl h) = pre_correction exact_arith df sl h"
    using assms(3) by (simp add: correction_pass_exact)
  have "map (\<lambda>s. round_py exact_arith s 2) (daily_stock (pre_correction exact_arith df sl h)) =
      daily_stock (pre_correction exact_arith df sl h)"
    by (rule map_round_cents) (rule cents_pre_correction)
  then show "daily_stock (optimize_single_product exact_arith df sl h) = daily_stock (pre_correction exact_arith df sl h)"
    using assms(1,2) by (simp add: main_result c round_result_exact)
  show "wastage_risk (optimize_single_product exact_arith df sl h) =
      round_py exact_arith (calculate_wastage_risk exact_arith (daily_stock (pre_correction exact_arith df sl h)) df sl) 3"
    using assms(1,2) by (simp add: main_result c round_result_exact pre_correction_risk)
qed

lemma corrected_risk_eq:
  "wastage_risk (correction_pass exact_arith df sl (pre_correction exact_arith df sl h)) =
     calculate_wastage_risk exact_arith (daily_stock (correction_pass exact_arith df sl (pre_correction exact_arith df sl h))) df sl"
  by (simp add: correction_pass_exact Let_def pre_correction_risk)

lemma corrected_stock_depends_on_stock:
  assumes "daily_stock (pre_correction exact_arith df s1 h) = daily_stock (pre_correction exact_arith df s2 h)"
  shows "daily_stock (correction_pass exact_arith df s1 (pre_correction exact_arith df s1 h)) =
     daily_stock (correction_pass exact_arith df s2 (pre_correction exact_arith df s2 h))"
  using assms by (simp add: correction_stock pre_correction_level)

lemma day_stock_value:
  "day < length df \<Longrightarrow>
   day_stock A df avg ssf sl day =
     max 0 (round_py A
       (fl A ((if fl A (avg * fl A 1.2) < df ! day then fl A (df ! day * fl A 1.1)
               else if df ! day < fl A (avg * fl A 0.8) then fl A (df ! day * fl A 0.9)
               else df ! day)
              + fl A (fl A (df ! day * ssf) * shelf_life_factor A sl))) 2)"
  by (simp add: day_stock_def Let_def)

lemma day_stock_value_exact:
  "day < length df \<Longrightarrow>
   day_stock exact_arith df avg ssf sl day =
     max 0 (round_py exact_arith
       ((if avg * 1.2 < df ! day then df ! day * 1.1
         else if df ! day < avg * 0.8 then df ! day * 0.9 else df ! day)
        + df ! day * ssf * shelf_life_factor exact_arith sl) 2)"
  by (simp add: day_stock_exact Let_def)

lemma adjusted_base_mono:
  assumes "0 \<le> x" and "x \<le> v"
  shows "(if avg * 1.2 < x then x * 1.1 else if x < avg * 0.8 then x * 0.9 else x)
       \<le> (if avg * 1.2 < v then v * 1.1 else if v < avg * 0.8 then v * 0.9 else (v::real))"
  using assms by (auto split: if_splits)

lemma risk_antitone:
  assumes "s1 \<le> s2"
  shows "calculate_wastage_risk exact_arith st df s2 \<le> calculate_wastage_risk exact_arith st df s1"
proof -
  define e where "e = max 0 ((sum_list st - sum_list df) / sum_list df)"
  define h where "h = real (length st)"
  define A where "A s = max 0 ((14 - s) / 14)" for s :: real
  define B where "B s = max 0 ((h - s) / max h 1)" for s :: real
  have a: "A s2 \<le> A s1"
    unfolding A_def using assms by (intro max.mono divide_right_mono) simp_all
  have b: "B s2 \<le> B s1"
    unfolding B_def using assms by (intro max.mono divide_right_mono) simp_all
  have "e * 0.5 + A s2 * 0.3 + B s2 * 0.2 \<le> e * 0.5 + A s1 * 0.3 + B s1 * 0.2"
    using a b by linarith
  then have w: "min 1 (e * 0.5 + A s2 * 0.3 + B s2 * 0.2)
      \<le> min 1 (e * 0.5 + A s1 * 0.3 + B s1 * 0.2)"
    by (intro min.mono order_refl)
  show ?thesis
  proof (cases "st = [] \<or> df = [] \<or> sum_list df = 0")
    case True
    then show ?thesis by (auto simp: calculate_wastage_risk_exact Let_def)
  next
    case False
    then have "calculate_wastage_risk exact_arith st df s = min 1 (e * 0.5 + A s * 0.3 + B s * 0.2)" for s
      by (simp add: calculate_wastage_risk_exact Let_def e_def h_def A_def B_def)
    with w show ?thesis by simp
  qed
qed

subsection \<open>Series of two days and constant series\<close>

lemma np_std_pair: "np_std exact_arith [a, b] = \<bar>a - b\<bar> / 2"
proof -
  have "((a - (a + b) / 2) * (a - (a + b) / 2) + (b - (a + b) / 2) * (b - (a + b) / 2)) / 2
      = ((a - b) / 2) ^ 2"
    by (simp add: power2_eq_square field_simps)
  then show ?thesis by (simp add: np_std_exact)
qed

lemma np_std_replicate: "0 < n \<Longrightarrow> np_std exact_arith (replicate n c) = 0"
  by (simp add: np_std_exact sum_list_replicate)

lemma constant_series_factor: "1 < n \<Longrightarrow> safety_stock_factor exact_arith (replicate n c) = 0"
  by (simp add: safety_stock_factor_exact demand_std_exact np_std_replicate)

lemma constant_series_avg: "0 < n \<Longrightarrow> avg_demand exact_arith (replicate n c) = c"
  by (simp add: avg_demand_exact sum_list_replicate)

lemma constant_series_stock:
  assumes "0 \<le> c" and "1 < n"
  shows "daily_stock (pre_correction exact_arith (replicate n c) sl (int n)) = replicate n (round_py exact_arith c 2)"
proof -
  have r: "0 \<le> round_py exact_arith c 2" using round_py_mono[of 0 c 2] assms(1) by (simp add: round_py_zero)
  have "day_stock exact_arith (replicate n c) c 0 sl d = round_py exact_arith c 2" if "d < n" for d
    using that assms(1) r by (simp add: day_stock_exact Let_def mult_le_cancel_left1 max_def)
  then have "map (day_stock exact_arith (replicate n c) c 0 sl) [0..<n] = map (\<lambda>d. round_py exact_arith c 2) [0..<n]"
    by (intro map_cong) auto
  then show ?thesis
    using assms(2) by (simp add: pre_correction_stock n_days_of_def constant_series_factor
        constant_series_avg map_replicate_const)
qed

lemma two_day_stock:
  "daily_stock (pre_correction exact_arith [a, b] sl 2) =
     [day_stock exact_arith [a, b] (avg_demand exact_arith [a, b]) (safety_stock_factor exact_arith [a, b]) sl 0,
      day_stock exact_arith [a, b] (avg_demand exact_arith [a, b]) (safety_stock_factor exact_arith [a, b]) sl 1]"
proof -
  have "[0..<2] = [0, Suc 0]" by (simp add: upt_rec numeral_2_eq_2)
  then show ?thesis by (simp add: pre_correction_stock n_days_of_def)
qed

lemma two_day_factor: "safety_stock_factor exact_arith [a, b] = min 0.5 (\<bar>a - b\<bar> / 2 / max ((a + b) / 2) 1)"
  by (simp add: safety_stock_factor_exact demand_std_exact np_std_pair avg_demand_exact)

lemma two_day_guard: "n_days_of 2 [a, b] \<noteq> 0" "[a, b] \<noteq> []"
  by (simp_all add: n_days_of_def)

lemma hundred_ten_first_day:
  "daily_stock (pre_correction exact_arith [100, 10] 30 2) ! 0 = 160"
proof -
  have avg: "avg_demand exact_arith [100, 10] = 55" by (simp add: avg_demand_exact)
  have ssf: "safety_stock_factor exact_arith [100, 10] = 1 / 2" by (simp add: two_day_factor)
  have r: "round_py exact_arith 160 2 = 160" using round_py_unique[of 16000 160 2] by simp
  have "day_stock exact_arith [100, 10] 55 (1 / 2) 30 0 = 160"
    using r by (simp add: day_stock_value_exact shelf_life_factor_exact)
  then show ?thesis unfolding two_day_stock avg ssf by simp
qed

lemma hundred_week_stock:
  "daily_stock (pre_correction exact_arith (replicate 7 100) sl 7) = replicate 7 100"
proof -
  have r: "round_py exact_arith 100 2 = 100" by (rule round_py_hundred)
  show ?thesis using constant_series_stock[of 100 7 sl] by (simp add: r)
qed

lemma hundred_week_level: "service_level (pre_correction exact_arith (replicate 7 100) sl 7) = 100"
  by (simp add: pre_correction_level hundred_week_stock service_level_of_exact sum_list_replicate)

lemma hundred_week_risk:
  "wastage_risk (optimize_single_product exact_arith (replicate 7 100) sl 7) =
     round_py exact_arith (calculate_wastage_risk exact_arith (replicate 7 100) (replicate 7 100) sl) 3"
proof -
  have lv: "80 \<le> service_level (pre_correction exact_arith (replicate 7 100) sl 7)"
    by (simp add: pre_correction_level hundred_week_stock service_level_of_exact sum_list_replicate)
  have n: "n_days_of 7 (replicate 7 (100::real)) \<noteq> 0" "replicate 7 (100::real) \<noteq> []"
    by (simp_all add: n_days_of_def)
  show ?thesis using uncorrected_result(2)[OF n lv] by (simp add: hundred_week_stock)
qed

lemma hundred_week_scenario: "wastage_risk (optimize_single_product exact_arith (replicate 7 100) 30 7)
       < wastage_risk (optimize_single_product exact_arith (replicate 7 100) 2 7)"
proof -
  have a: "calculate_wastage_risk exact_arith (replicate 7 100) (replicate 7 100) 30 = 0"
    by (simp add: calculate_wastage_risk_exact Let_def sum_list_replicate)
  have b: "calculate_wastage_risk exact_arith (replicate 7 100) (replicate 7 100) 2 = 2 / 5"
    by (simp add: calculate_wastage_risk_exact Let_def sum_list_replicate)
  have c: "round_py exact_arith (2 / 5) 3 = 2 / 5" using round_py_unique[of 400 "2 / 5" 3] by simp
  show ?thesis by (simp add: hundred_week_risk a b c round_py_zero)
qed

lemma tenth_week_stock:
  "daily_stock (pre_correction exact_arith (replicate 7 (1 / 10)) sl 7) = replicate 7 (1 / 10)"
proof -
  have r: "round_py exact_arith (1 / 10) 2 = 1 / 10"
    using round_py_unique[of 10 "1 / 10" 2] by simp
  show ?thesis using constant_series_stock[of "1 / 10" 7 sl] by (simp add: r)
qed

lemma tenth_week_level: "service_level (pre_correction exact_arith (replicate 7 (1 / 10)) sl 7) = 70"
  by (simp add: pre_correction_level tenth_week_stock service_level_of_exact sum_list_replicate)

section \<open>Evaluating binary64\<close>

lemma two_powi_neg: "(2::real) powi (- int k) = 1 / 2 ^ k"
  by (simp add: power_int_minus field_simps)

lemma floor_log2_binade:
  assumes "2 ^ 52 \<le> \<bar>x\<bar> * 2 ^ k" and "\<bar>x\<bar> * 2 ^ k < 2 ^ 53"
  shows "\<lfloor>log 2 \<bar>x\<bar>\<rfloor> = 52 - int k"
proof -
  have pos: "0 < \<bar>x\<bar>" using assms(1) by (cases "x = 0") auto
  have a: "2 powr real_of_int (52 - int k) = 2 ^ 52 / 2 ^ k"
  proof -
    have "real_of_int (52 - int k) = 52 - real k" by simp
    then show ?thesis by (simp only: powr_diff powr_realpow) simp
  qed
  have b: "2 powr real_of_int (52 - int k + 1) = 2 ^ 53 / 2 ^ k"
  proof -
    have "real_of_int (52 - int k + 1) = 53 - real k" by simp
    then show ?thesis by (simp only: powr_diff powr_realpow) simp
  qed
  have "2 ^ 52 / 2 ^ k \<le> \<bar>x\<bar>" using assms(1) by (simp add: field_simps)
  moreover have "\<bar>x\<bar> < 2 ^ 53 / 2 ^ k" using assms(2) by (simp add: field_simps)
  ultimately show ?thesis
    using floor_log_eq_powr_iff[OF pos, of 2 "52 - int k"] a b by simp
qed

text \<open>
  A number whose scaled magnitude lies in the binade \<open>[2^52, 2^53)\<close> is rounded to the
  integer multiple of \<open>2^-k\<close> nearest to it.
\<close>

lemma binary64_eval:
  assumes "2 ^ 52 \<le> \<bar>x\<bar> * 2 ^ k" and "\<bar>x\<bar> * 2 ^ k < 2 ^ 53" and "k \<le> 1074"
    and "py_round (x * 2 ^ k) = m"
  shows "binary64 x = of_int m / 2 ^ k"
proof -
  have nz: "x \<noteq> 0" using assms(1) by auto
  have e: "max \<lfloor>log 2 \<bar>x\<bar>\<rfloor> (- 1022) - 52 = - int k"
    using floor_log2_binade[OF assms(1,2)] assms(3) by simp
  have "py_round (x / 2 powi (- int k)) = m"
    using assms(4) by (simp add: two_powi_neg)
  then show ?thesis
    using nz by (simp add: binary64_def e Let_def two_powi_neg)
qed

lemma binary64_unique:
  assumes "2 ^ 52 \<le> \<bar>x\<bar> * 2 ^ k" and "\<bar>x\<bar> * 2 ^ k < 2 ^ 53" and "k \<le> 1074"
    and "of_int m - 1 / 2 < x * 2 ^ k" and "x * 2 ^ k < of_int m + 1 / 2"
  shows "binary64 x = of_int m / 2 ^ k"
  using assms(1-3) by (rule binary64_eval) (rule py_round_unique[OF assms(4,5)])

text \<open>A number halfway between two neighbours goes to the one with the even mantissa.\<close>

lemma binary64_tie:
  assumes "2 ^ 52 \<le> \<bar>x\<bar> * 2 ^ k" and "\<bar>x\<bar> * 2 ^ k < 2 ^ 53" and "k \<le> 1074"
    and "even m" and "x * 2 ^ k = of_int m - 1 / 2 \<or> x * 2 ^ k = of_int m + 1 / 2"
  shows "binary64 x = of_int m / 2 ^ k"
  using assms(1-3)
proof (rule binary64_eval)
  show "py_round (x * 2 ^ k) = m"
    using assms(4,5) py_round_tie_up[of m] py_round_tie_down[of m] by auto
qed

lemma fl_binary64: "fl binary64_arith = binary64"
  by (simp add: binary64_arith_def)


lemma py_sum_binary64_pair: "py_sum binary64_arith [a, b] = binary64 (binary64 a + b)"
  by (simp add: binary64_arith_def seq_sum_def)

lemma np_sum_binary64_pair: "np_sum binary64_arith [a, b] = binary64 (binary64 a + b)"
  by (simp add: binary64_arith_def seq_sum_def)

lemma binary64_sqrt_unique:
  assumes "(2 ^ 52 / 2 ^ k)\<^sup>2 \<le> q" and "q < (2 ^ 53 / 2 ^ k)\<^sup>2" and "k \<le> 1074"
    and "((of_int m - 1 / 2) / 2 ^ k)\<^sup>2 < q" and "q < ((of_int m + 1 / 2) / 2 ^ k)\<^sup>2"
    and "0 \<le> m"
  shows "binary64 (sqrt q) = of_int m / 2 ^ k"
proof (rule binary64_unique)
  have p: "(0::real) < 2 ^ k" by simp
  have nn: "0 \<le> sqrt q" using assms(1) by (intro real_sqrt_ge_zero) (smt (verit) zero_le_power2)
  have "2 ^ 52 / 2 ^ k \<le> sqrt q" using assms(1) by (rule real_le_rsqrt)
  then show "2 ^ 52 \<le> \<bar>sqrt q\<bar> * 2 ^ k" using nn p by (simp add: field_simps)
  have "sqrt q < 2 ^ 53 / 2 ^ k" using assms(2) by (intro real_less_lsqrt) simp_all
  then show "\<bar>sqrt q\<bar> * 2 ^ k < 2 ^ 53" using nn p by (simp add: field_simps)
  show "k \<le> 1074" by (rule assms(3))
  have "(of_int m - 1 / 2) / 2 ^ k < sqrt q" using assms(4) by (rule real_less_rsqrt)
  then show "of_int m - 1 / 2 < sqrt q * 2 ^ k" using p by (simp add: field_simps)
  have "(0::real) \<le> of_int m + 1 / 2" using assms(6) by simp
  then have "(0::real) \<le> (of_int m + 1 / 2) / 2 ^ k" by simp
  then have "sqrt q < (of_int m + 1 / 2) / 2 ^ k" using assms(5) by (intro real_less_lsqrt)
  then show "sqrt q * 2 ^ k < of_int m + 1 / 2" using p by (simp add: field_simps)
qed

section \<open>The status classifier in binary64\<close>

lemma binary64_thresholds:
  "binary64 (9 / 10) = 8106479329266893 / 9007199254740992"
  "binary64 (17 / 20) = 7656119366529843 / 9007199254740992"
  "binary64 (4 / 5) = 3602879701896397 / 4503599627370496"
  "binary64 (6 / 5) = 5404319552844595 / 4503599627370496"
  "binary64 (13 / 10) = 5854679515581645 / 4503599627370496"
  "binary64 (7 / 5) = 3152519739159347 / 2251799813685248"
  using binary64_unique[of "9 / 10" 53 8106479329266893]
    binary64_unique[of "17 / 20" 53 7656119366529843]
    binary64_unique[of "4 / 5" 53 7205759403792794]
    binary64_unique[of "6 / 5" 52 5404319552844595]
    binary64_unique[of "13 / 10" 52 5854679515581645]
    binary64_unique[of "7 / 5" 52 6305039478318694]
  by simp_all


text \<open>
  The stored numbers 1.2 and 1.5 have the quotient 0.7999999999999999, below the stored
  threshold 0.8: the classifier compares the computed ratio, not the ratio of the decimal
  numbers written.
\<close>

lemma float_ratio_below_threshold:
  "determine_stock_status binary64_arith (binary64 (12 / 10)) (binary64 (15 / 10)) 10 = Understock"
proof -
  have f2: "binary64 (3 / 2) = 3 / 2"
    using binary64_unique[of "3 / 2" 52 6755399441055744] by simp
  have f3: "binary64 (5404319552844595 / 6755399441055744) = 7205759403792793 / 9007199254740992"
    using binary64_unique[of "5404319552844595 / 6755399441055744" 53 7205759403792793] by simp
  show ?thesis
    by (simp add: determine_stock_status_def understock_threshold_def fl_binary64
        binary64_thresholds f2 f3)
qed

section \<open>The loop's stock in binary64\<close>


text \<open>
  The series 6.66, 9.99 with a shelf life of 7 days: the stored product of the average and
  1.2 is just below 9.99, so the second day is padded as a peak day and its stock is
  11.46. In exact arithmetic the product is 9.99 and the day is not a peak day.
\<close>

lemma two_day_float_stock:
  "daily_stock (pre_correction binary64_arith [binary64 (666 / 100), binary64 (999 / 100)] 7 2) ! 1
     = binary64 (1146 / 100)"
proof -
  have f1: "binary64 (333 / 50) = 1874623344892969 / 281474976710656"
    using binary64_unique[of "333 / 50" 50 "7498493379571876"] by simp
  have f2: "binary64 (999 / 100) = 5623870034678907 / 562949953421312"
    using binary64_unique[of "999 / 100" 49 "5623870034678907"] by simp
  have f3: "binary64 (1874623344892969 / 281474976710656) = 1874623344892969 / 281474976710656"
    using binary64_unique[of "1874623344892969 / 281474976710656" 50 "7498493379571876"] by simp
  have f4: "binary64 (9373116724464845 / 562949953421312) = 2343279181116211 / 140737488355328"
    using binary64_tie[of "9373116724464845 / 562949953421312" 48 "4686558362232422"] by simp
  have f5: "binary64 (2343279181116211 / 281474976710656) = 2343279181116211 / 281474976710656"
    using binary64_unique[of "2343279181116211 / 281474976710656" 49 "4686558362232422"] by simp
  have f6: "binary64 ((- (234327918111621 / 140737488355328))) = (- (234327918111621 / 140737488355328))"
    using binary64_unique[of "(- (234327918111621 / 140737488355328))" 52 "(- 7498493379571872)"] by simp
  have f7: "binary64 (937311672446485 / 562949953421312) = 937311672446485 / 562949953421312"
    using binary64_unique[of "937311672446485 / 562949953421312" 52 "7498493379571880"] by simp
  have f8: "binary64 (54909573206526557082615247641 / 19807040628566084398385987584) = 1560623934623395 / 562949953421312"
    using binary64_unique[of "54909573206526557082615247641 / 19807040628566084398385987584" 51 "6242495738493580"] by simp
  have f9: "binary64 (878553171304426787945188855225 / 316912650057057350374175801344) = 3121247869246797 / 1125899906842624"
    using binary64_unique[of "878553171304426787945188855225 / 316912650057057350374175801344" 51 "6242495738493594"] by simp
  have f10: "binary64 (1560623934623395 / 562949953421312) = 1560623934623395 / 562949953421312"
    using binary64_unique[of "1560623934623395 / 562949953421312" 51 "6242495738493580"] by simp
  have f11: "binary64 (6242495738493587 / 1125899906842624) = 6242495738493587 / 1125899906842624"
    using binary64_unique[of "6242495738493587 / 1125899906842624" 50 "6242495738493587"] by simp
  have f12: "binary64 (6242495738493587 / 2251799813685248) = 6242495738493587 / 2251799813685248"
    using binary64_unique[of "6242495738493587 / 2251799813685248" 51 "6242495738493587"] by simp
  have f13: "binary64 (sqrt (6242495738493587 / 2251799813685248)) = 1874623344892969 / 1125899906842624"
    using binary64_sqrt_unique[of 52 "6242495738493587 / 2251799813685248" "7498493379571876"] by (simp add: power2_eq_square)
  have f14: "binary64 (1 / 2) = 1 / 2"
    using binary64_unique[of "1 / 2" 53 "4503599627370496"] by simp
  have f15: "binary64 (1874623344892969 / 9373116724464844) = 3602879701896397 / 18014398509481984"
    using binary64_unique[of "1874623344892969 / 9373116724464844" 55 "7205759403792794"] by simp
  have f16: "binary64 (1 / 10) = 3602879701896397 / 36028797018963968"
    using binary64_unique[of "1 / 10" 56 "7205759403792794"] by simp
  have f17: "binary64 (7 / 30) = 4203359652212463 / 18014398509481984"
    using binary64_unique[of "7 / 30" 55 "8406719304424926"] by simp
  have f18: "binary64 (20262127194048020310642875198079 / 10141204801825835211973625643008) = 2249548013871563 / 1125899906842624"
    using binary64_unique[of "20262127194048020310642875198079 / 10141204801825835211973625643008" 52 "8998192055486252"] by simp
  have f19: "binary64 (9455659357222409944047269889669 / 20282409603651670423947251286016) = 4199156292560251 / 9007199254740992"
    using binary64_unique[of "9455659357222409944047269889669 / 20282409603651670423947251286016" 54 "8398312585120502"] by simp
  have f20: "binary64 (6 / 5) = 5404319552844595 / 4503599627370496"
    using binary64_unique[of "6 / 5" 52 "5404319552844595"] by simp
  have f21: "binary64 (12663829496280010171432318229545 / 1267650600228229401496703205376) = 2811935017339453 / 281474976710656"
    using binary64_unique[of "12663829496280010171432318229545 / 1267650600228229401496703205376" 49 "5623870034678906"] by simp
  have f22: "binary64 (11 / 10) = 2476979795053773 / 2251799813685248"
    using binary64_unique[of "11 / 10" 52 "4953959590107546"] by simp
  have f23: "binary64 (13930212445908014315058853866111 / 1267650600228229401496703205376) = 3093128519073399 / 281474976710656"
    using binary64_unique[of "13930212445908014315058853866111 / 1267650600228229401496703205376" 49 "6186257038146798"] by simp
  have f24: "binary64 (103179268902909019 / 9007199254740992) = 3224352153215907 / 281474976710656"
    using binary64_unique[of "103179268902909019 / 9007199254740992" 49 "6448704306431814"] by simp
  have f25: "py_round (80608803830397675 / 70368744177664) = 1146"
    using py_round_unique[of 1146 "80608803830397675 / 70368744177664"] by simp
  have f26: "binary64 (573 / 50) = 1612851616552059 / 140737488355328"
    using binary64_unique[of "573 / 50" 49 "6451406466208236"] by simp
  have df: "[binary64 (666 / 100), binary64 (999 / 100)] = [1874623344892969 / 281474976710656, 5623870034678907 / 562949953421312]"
    by (simp add: f1 f2)
  have avg: "avg_demand binary64_arith [1874623344892969 / 281474976710656, 5623870034678907 / 562949953421312] = 2343279181116211 / 281474976710656"
    by (simp add: avg_demand_def fl_binary64 py_sum_binary64_pair f1 f2 f3 f4 f5 f6 f7 f8 f9 f10 f11 f12 f13 f14 f15 f16 f17 f18 f19 f20 f21 f22 f23 f24 f25 f26)
  have std: "np_std binary64_arith [1874623344892969 / 281474976710656, 5623870034678907 / 562949953421312] = 1874623344892969 / 1125899906842624"
    by (simp add: np_std_def Let_def fl_binary64 np_sum_binary64_pair f1 f2 f3 f4 f5 f6 f7 f8 f9 f10 f11 f12 f13 f14 f15 f16 f17 f18 f19 f20 f21 f22 f23 f24 f25 f26)
  have ssf: "safety_stock_factor binary64_arith [1874623344892969 / 281474976710656, 5623870034678907 / 562949953421312] = 3602879701896397 / 18014398509481984"
    by (simp add: safety_stock_factor_def demand_std_def avg std fl_binary64 f1 f2 f3 f4 f5 f6 f7 f8 f9 f10 f11 f12 f13 f14 f15 f16 f17 f18 f19 f20 f21 f22 f23 f24 f25 f26)
  have d: "day_stock binary64_arith [1874623344892969 / 281474976710656, 5623870034678907 / 562949953421312] (2343279181116211 / 281474976710656) (3602879701896397 / 18014398509481984) 7 (Suc 0) = 1612851616552059 / 140737488355328"
    by (simp add: day_stock_value shelf_life_factor_def round_py_def fl_binary64 f1 f2 f3 f4 f5 f6 f7 f8 f9 f10 f11 f12 f13 f14 f15 f16 f17 f18 f19 f20 f21 f22 f23 f24 f25 f26)
  have r: "binary64 (1146 / 100) = 1612851616552059 / 140737488355328"
    by (simp add: f1 f2 f3 f4 f5 f6 f7 f8 f9 f10 f11 f12 f13 f14 f15 f16 f17 f18 f19 f20 f21 f22 f23 f24 f25 f26)
  have "[0..<nat (n_days_of 2 [1874623344892969 / 281474976710656, 5623870034678907 / 562949953421312 :: real])] = [0, Suc 0]"
    by (simp add: n_days_of_def upt_rec)
  then show ?thesis
    unfolding df pre_correction_stock avg ssf r by (simp add: d)
qed

section \<open>Facts about the plan operation\<close>















section \<open>The claims\<close>




text \<open>
  Claim C2, amended. When the correction pass does not run (or the guard for an empty
  series returns), the returned total stock equals the sum of the returned daily stocks
  within the tolerance of 0.01. In every case, also after a correction, the two differ by
  at most 0.005 times the number of days plus one: after a correction each entry and the
  total are rounded separately. Stated for arithmetic without rounding error.
\<close>

theorem total_stock_matches_daily_stock:
  "(n_days_of h df = 0 \<or> df = [] \<or> 80 \<le> service_level (pre_correction exact_arith df sl h) \<longrightarrow>
      \<bar>total_stock (optimize_single_product exact_arith df sl h) -
         sum_list (daily_stock (optimize_single_product exact_arith df sl h))\<bar> \<le> 1 / 100) \<and>
   \<bar>total_stock (optimize_single_product exact_arith df sl h) -
      sum_list (daily_stock (optimize_single_product exact_arith df sl h))\<bar>
     \<le> real (length (daily_stock (optimize_single_product exact_arith df sl h)) + 1) / 200"
proof (cases "n_days_of h df = 0 \<or> df = []")
  case True
  then show ?thesis by (simp add: guard_result sum_list_replicate)
next
  case False
  then have r: "optimize_single_product exact_arith df sl h =
      round_result exact_arith (correction_pass exact_arith df sl (pre_correction exact_arith df sl h))"
    by (simp add: main_result)
  let ?c = "correction_pass exact_arith df sl (pre_correction exact_arith df sl h)"
  have near: "\<bar>total_stock (round_result exact_arith ?c) - sum_list (daily_stock (round_result exact_arith ?c))\<bar>
      \<le> real (length (daily_stock (round_result exact_arith ?c)) + 1) / 200"
    using round_total_near[of "daily_stock ?c"] by (simp add: round_result_exact corrected_total)
  have exact: "total_stock (round_result exact_arith ?c) = sum_list (daily_stock (round_result exact_arith ?c))"
    if "80 \<le> service_level (pre_correction exact_arith df sl h)"
  proof -
    from that have c: "?c = pre_correction exact_arith df sl h" by (simp add: correction_pass_exact)
    have "map (\<lambda>s. round_py exact_arith s 2) (daily_stock (pre_correction exact_arith df sl h)) =
        daily_stock (pre_correction exact_arith df sl h)"
      by (rule map_round_cents) (rule cents_pre_correction)
    moreover have "round_py exact_arith (sum_list (daily_stock (pre_correction exact_arith df sl h))) 2 =
        sum_list (daily_stock (pre_correction exact_arith df sl h))"
      by (rule cents_round, rule cents_sum_list, rule cents_pre_correction)
    ultimately show ?thesis by (simp add: c round_result_exact pre_correction_total)
  qed
  from False near exact show ?thesis by (simp add: r)
qed

theorem total_stock_matches_daily_stock_witness:
  "80 \<le> service_level (pre_correction exact_arith (replicate 7 100) 30 7) \<and>
   \<bar>total_stock (optimize_single_product exact_arith (replicate 7 100) 30 7) -
      sum_list (daily_stock (optimize_single_product exact_arith (replicate 7 100) 30 7))\<bar> \<le> 1 / 100 \<and>
   \<bar>total_stock (optimize_single_product exact_arith (replicate 7 (1 / 10)) 30 7) -
      sum_list (daily_stock (optimize_single_product exact_arith (replicate 7 (1 / 10)) 30 7))\<bar>
     \<le> real (length (daily_stock (optimize_single_product exact_arith (replicate 7 (1 / 10)) 30 7)) + 1) / 200"
  using total_stock_matches_daily_stock[of 7 "replicate 7 100" 30]
    total_stock_matches_daily_stock[of 7 "replicate 7 (1 / 10)" 30]
  by (simp add: hundred_week_level)

text \<open>
  The tolerance of 0.01 fails after a correction: seven days of demand 0.1 give a service
  level of 70, every entry is scaled to 0.8/7 and rounded to 0.11, the total is 0.80, and
  the entries sum to 0.77.
\<close>

theorem total_stock_tolerance_counterexample:
  "\<not> \<bar>total_stock (optimize_single_product exact_arith (replicate 7 (1 / 10)) 30 7) -
       sum_list (daily_stock (optimize_single_product exact_arith (replicate 7 (1 / 10)) 30 7))\<bar>
      \<le> 1 / 100"
proof -
  let ?df = "replicate 7 (1 / 10 :: real)"
  have r: "round_py exact_arith (1 / 10) 2 = 1 / 10"
    using round_py_unique[of 10 "1 / 10" 2] by simp
  have st: "daily_stock (pre_correction exact_arith ?df 30 7) = replicate 7 (1 / 10)"
    using constant_series_stock[of "1 / 10" 7 30] by (simp add: r)
  have lv: "service_level (pre_correction exact_arith ?df 30 7) = 70"
    by (simp add: pre_correction_level st service_level_of_exact sum_list_replicate)
  have f: "adjustment_factor exact_arith 70 = 8 / 7" by (simp add: adjustment_factor_exact)
  have n: "n_days_of 7 ?df \<noteq> 0" "?df \<noteq> []" by (simp_all add: n_days_of_def)
  have r2: "round_py exact_arith (4 / 35) 2 = 11 / 100"
    using round_py_unique[of 11 "4 / 35" 2] by simp
  have r3: "round_py exact_arith (4 / 5) 2 = 4 / 5"
    using round_py_unique[of 80 "4 / 5" 2] by simp
  have d: "daily_stock (optimize_single_product exact_arith ?df 30 7) = replicate 7 (11 / 100)"
    using corrected_result(1)[OF n] by (simp add: lv st f r2)
  have t: "total_stock (optimize_single_product exact_arith ?df 30 7) = 4 / 5"
    using corrected_result(2)[OF n] by (simp add: lv st f sum_list_replicate r3)
  show ?thesis by (simp add: d t sum_list_replicate)
qed

text \<open>
  Claim C3. For every demand series, shelf life and horizon, the wastage risk lies
  between 0 and 1 and the service level between 0 and 100, both in the state before the
  correction pass and in the result the allocator returns (after the correction, if it
  ran, and the final rounding).
\<close>

theorem allocator_risk_and_service_level_bounds:
  "0 \<le> wastage_risk (pre_correction exact_arith df sl h) \<and> wastage_risk (pre_correction exact_arith df sl h) \<le> 1 \<and>
   0 \<le> service_level (pre_correction exact_arith df sl h) \<and> service_level (pre_correction exact_arith df sl h) \<le> 100 \<and>
   0 \<le> wastage_risk (optimize_single_product exact_arith df sl h) \<and>
   wastage_risk (optimize_single_product exact_arith df sl h) \<le> 1 \<and>
   0 \<le> service_level (optimize_single_product exact_arith df sl h) \<and>
   service_level (optimize_single_product exact_arith df sl h) \<le> 100"
proof (cases "n_days_of h df = 0 \<or> df = []")
  case True
  then show ?thesis using pre_correction_bounds[of df sl h] by (simp add: guard_result)
next
  case False
  then have r: "optimize_single_product exact_arith df sl h =
      round_result exact_arith (correction_pass exact_arith df sl (pre_correction exact_arith df sl h))"
    by (simp add: main_result)
  show ?thesis
    using pre_correction_bounds[of df sl h] corrected_bounds[of df sl h]
      round_unit_bounds[of "wastage_risk (correction_pass exact_arith df sl (pre_correction exact_arith df sl h))" 3]
      round_percent_bounds[of "service_level (correction_pass exact_arith df sl (pre_correction exact_arith df sl h))" 2]
    by (simp add: r round_result_exact)
qed



text \<open>
  Claim C5, amended. For an empty demand series the risk function returns 0, whatever
  the stock. For a non-empty demand series of total zero it returns 1 if the stock sums
  to more than 0 and 0 otherwise.
\<close>

theorem risk_degenerate_demand:
  "(daily_forecast = [] \<longrightarrow> calculate_wastage_risk exact_arith stock daily_forecast shelf_life = 0) \<and>
   (daily_forecast \<noteq> [] \<and> sum_list daily_forecast = 0 \<longrightarrow>
      calculate_wastage_risk exact_arith stock daily_forecast shelf_life =
        (if 0 < sum_list stock then 1 else 0))"
  by (simp add: calculate_wastage_risk_exact Let_def)

theorem risk_degenerate_demand_witness:
  "calculate_wastage_risk exact_arith [5] [] 7 = 0 \<and> calculate_wastage_risk exact_arith [5] [0, 0] 7 = 1 \<and>
   calculate_wastage_risk exact_arith [0] [0, 0] 7 = 0"
  using risk_degenerate_demand[of "[]" "[5]" 7] risk_degenerate_demand[of "[0, 0]" "[5]" 7]
    risk_degenerate_demand[of "[0, 0]" "[0]" 7]
  by simp

text \<open>
  The claim as stated gives risk 1 to a positive stock against an empty demand series; the
  guard at the head of the function returns 0 there.
\<close>

theorem risk_empty_demand_counterexample:
  "sum_list [5 :: real] > 0 \<and> calculate_wastage_risk exact_arith [5] [] 7 \<noteq> 1"
  by (simp add: calculate_wastage_risk_exact)

text \<open>
  Claim C8. For an empty demand series, or an effective day count of zero, the allocator
  returns the zero allocation: one day of stock 0, total 0, risk 0 and service level 0,
  whatever the shelf life and horizon.
\<close>

theorem empty_series_zero_allocation:
  "daily_forecast = [] \<or> n_days_of horizon daily_forecast = 0 \<Longrightarrow>
     optimize_single_product exact_arith daily_forecast shelf_life horizon =
       \<lparr>daily_stock = [0], total_stock = 0, wastage_risk = 0, service_level = 0\<rparr>"
  by (auto simp: optimize_single_product_def Let_def n_days_of_def max_def)

theorem empty_series_zero_allocation_witness:
  "(([] :: real list) = [] \<or> n_days_of 7 [] = 0) \<and>
   optimize_single_product exact_arith [] 5 7 =
     \<lparr>daily_stock = [0], total_stock = 0, wastage_risk = 0, service_level = 0\<rparr> \<and>
   n_days_of 0 [40, 45] = 0 \<and>
   optimize_single_product exact_arith [40, 45] 5 0 =
     \<lparr>daily_stock = [0], total_stock = 0, wastage_risk = 0, service_level = 0\<rparr>"
  using empty_series_zero_allocation[of "[]" 7 5] empty_series_zero_allocation[of "[40, 45]" 0 5]
  by (simp add: n_days_of_def)




text \<open>
  Claim C10. Whenever the service level before the correction is below 80, the adjustment
  factor 80 / max(service_level, 1) is at least 1, every daily stock after the correction
  is the one before it times the factor and hence not smaller, and the total stock after
  the correction is not smaller than before. The same holds for the rounded values the
  allocator returns.
\<close>

theorem correction_never_reduces_stock:
  assumes "service_level (pre_correction exact_arith df sl h) < 80"
  shows "1 \<le> adjustment_factor exact_arith (service_level (pre_correction exact_arith df sl h)) \<and>
    length (daily_stock (correction_pass exact_arith df sl (pre_correction exact_arith df sl h))) =
      length (daily_stock (pre_correction exact_arith df sl h)) \<and>
    (\<forall>d < length (daily_stock (pre_correction exact_arith df sl h)).
       daily_stock (correction_pass exact_arith df sl (pre_correction exact_arith df sl h)) ! d =
         daily_stock (pre_correction exact_arith df sl h) ! d
           * adjustment_factor exact_arith (service_level (pre_correction exact_arith df sl h)) \<and>
       daily_stock (pre_correction exact_arith df sl h) ! d
         \<le> daily_stock (correction_pass exact_arith df sl (pre_correction exact_arith df sl h)) ! d) \<and>
    total_stock (pre_correction exact_arith df sl h)
      \<le> total_stock (correction_pass exact_arith df sl (pre_correction exact_arith df sl h)) \<and>
    (n_days_of h df \<noteq> 0 \<and> df \<noteq> [] \<longrightarrow>
       (\<forall>d < length (daily_stock (pre_correction exact_arith df sl h)).
          daily_stock (pre_correction exact_arith df sl h) ! d
            \<le> daily_stock (optimize_single_product exact_arith df sl h) ! d) \<and>
       total_stock (pre_correction exact_arith df sl h) \<le> total_stock (optimize_single_product exact_arith df sl h))"
proof -
  let ?a = "pre_correction exact_arith df sl h"
  let ?f = "adjustment_factor exact_arith (service_level ?a)"
  have f: "1 \<le> ?f" using assms by (rule adjustment_factor_ge_1)
  have st: "daily_stock (correction_pass exact_arith df sl ?a) = map (\<lambda>s. s * ?f) (daily_stock ?a)"
    using assms by (simp add: correction_stock)
  have entry: "s \<le> s * ?f" if "s \<in> set (daily_stock ?a)" for s
  proof -
    from that have "0 \<le> s" by (rule pre_correction_nonneg)
    with f have "s * 1 \<le> s * ?f" by (intro mult_left_mono)
    then show ?thesis by simp
  qed
  have sum: "sum_list (daily_stock ?a) \<le> sum_list (map (\<lambda>s. s * ?f) (daily_stock ?a))"
    using sum_list_mono[of "daily_stock ?a" "\<lambda>s. s" "\<lambda>s. s * ?f"] entry by simp
  then have tot: "total_stock ?a \<le> total_stock (correction_pass exact_arith df sl ?a)"
    using assms by (simp add: correction_pass_exact Let_def pre_correction_total)
  have rounded_entry: "s \<le> round_py exact_arith (s * ?f) 2" if "s \<in> set (daily_stock ?a)" for s
  proof -
    have "round_py exact_arith s 2 \<le> round_py exact_arith (s * ?f) 2" using entry[OF that] by (rule round_py_mono)
    moreover have "round_py exact_arith s 2 = s" using that by (intro cents_round cents_pre_correction)
    ultimately show ?thesis by simp
  qed
  have rounded_total:
    "sum_list (daily_stock ?a) \<le> round_py exact_arith (sum_list (map (\<lambda>s. s * ?f) (daily_stock ?a))) 2"
  proof -
    have "round_py exact_arith (sum_list (daily_stock ?a)) 2
        \<le> round_py exact_arith (sum_list (map (\<lambda>s. s * ?f) (daily_stock ?a))) 2"
      using sum by (rule round_py_mono)
    moreover have "round_py exact_arith (sum_list (daily_stock ?a)) 2 = sum_list (daily_stock ?a)"
      by (rule cents_round, rule cents_sum_list, rule cents_pre_correction)
    ultimately show ?thesis by simp
  qed
  have returned: "(\<forall>d < length (daily_stock ?a).
        daily_stock ?a ! d \<le> daily_stock (optimize_single_product exact_arith df sl h) ! d) \<and>
      total_stock ?a \<le> total_stock (optimize_single_product exact_arith df sl h)"
    if "n_days_of h df \<noteq> 0" and "df \<noteq> []"
    using that assms rounded_entry rounded_total
    by (simp add: main_result round_result_exact correction_pass_exact Let_def pre_correction_total)
  show ?thesis using f st entry tot returned by simp
qed

theorem correction_never_reduces_stock_witness:
  "service_level (pre_correction exact_arith (replicate 7 (1 / 10)) 30 7) < 80 \<and>
   1 \<le> adjustment_factor exact_arith (service_level (pre_correction exact_arith (replicate 7 (1 / 10)) 30 7)) \<and>
   daily_stock (pre_correction exact_arith (replicate 7 (1 / 10)) 30 7) ! 0
     \<le> daily_stock (correction_pass exact_arith (replicate 7 (1 / 10)) 30
          (pre_correction exact_arith (replicate 7 (1 / 10)) 30 7)) ! 0 \<and>
   total_stock (pre_correction exact_arith (replicate 7 (1 / 10)) 30 7)
     \<le> total_stock (correction_pass exact_arith (replicate 7 (1 / 10)) 30
          (pre_correction exact_arith (replicate 7 (1 / 10)) 30 7))"
proof -
  have lv: "service_level (pre_correction exact_arith (replicate 7 (1 / 10)) 30 7) < 80"
    by (simp add: tenth_week_level)
  have len: "0 < length (daily_stock (pre_correction exact_arith (replicate 7 (1 / 10)) 30 7))"
    by (simp add: tenth_week_stock)
  show ?thesis using lv len correction_never_reduces_stock[OF lv] by blast
qed

end
